theory Spec2Isabelle
  imports Main "HOL-Library.Sublist"
begin

section \<open>JavaScript values of dockerfile-generator.js\<close>

text \<open>
  The generator (\<^verbatim>\<open>src/install_dockerfile_gen_sh/dockerfile-generator.js\<close>) reads one
  directory, parses \<^verbatim>\<open>package.json\<close> with \<^verbatim>\<open>JSON.parse\<close> and renders three documents.
  A value returned by \<^verbatim>\<open>JSON.parse\<close> is a \<open>json\<close>:
  \<^item> a number is kept as the text \<^verbatim>\<open>String(n)\<close> gives for it (the program never computes
    with one; \<^verbatim>\<open>JSON.parse\<close> yields no \<^verbatim>\<open>NaN\<close>, and both zeros print as \<^verbatim>\<open>0\<close>);
  \<^item> an object is the list of its own properties in the order JavaScript enumerates them,
    with distinct keys;
  \<^item> a character of a manifest string or of a file name is a code point from U+0000 to
    U+00FF; the base name of the directory, which is lower-cased, is a list of UTF-16
    code units of any value.
  \<^verbatim>\<open>undefined\<close> is \<open>None\<close> of \<open>json option\<close>.
\<close>

datatype json =
    JNull
  | JBool bool
  | JNum string
  | JStr string
  | JArr "json list"
  | JObj "(string \<times> json) list"

text \<open>
  \<open>SyntaxError\<close> is what \<^verbatim>\<open>JSON.parse\<close> throws (the specification's ManifestParseError),
  \<open>TypeError\<close> what a property read on \<^verbatim>\<open>null\<close>/\<^verbatim>\<open>undefined\<close> or a call of a non-function
  throws; \<open>ENOENT\<close>, \<open>EISDIR\<close> and \<open>EACCES\<close> are what \<^verbatim>\<open>readFileSync\<close> throws on a path that
  leads to nothing, to a directory, or to a file that may not be read.
\<close>

datatype error = SyntaxError | TypeError | ENOENT | EISDIR | EACCES

text \<open>Truthiness, as \<^verbatim>\<open>if (v)\<close> and \<^verbatim>\<open>v || w\<close> test it.\<close>

fun truthy :: "json option \<Rightarrow> bool" where
  "truthy None = False"
| "truthy (Some JNull) = False"
| "truthy (Some (JBool b)) = b"
| "truthy (Some (JNum s)) = (s \<noteq> ''0'')"
| "truthy (Some (JStr s)) = (s \<noteq> [])"
| "truthy (Some (JArr xs)) = True"
| "truthy (Some (JObj kvs)) = True"

text \<open>The operator \<^verbatim>\<open>a || b\<close>.\<close>

definition js_or :: "json option \<Rightarrow> json option \<Rightarrow> json option" where
  "js_or a b = (if truthy a then a else b)"

text \<open>
  \<^verbatim>\<open>v.k\<close> and \<^verbatim>\<open>v?.k\<close>, for the property names the program reads (\<^verbatim>\<open>dependencies\<close>,
  \<^verbatim>\<open>devDependencies\<close>, \<^verbatim>\<open>scripts\<close>, \<^verbatim>\<open>main\<close>, \<^verbatim>\<open>start\<close>, \<^verbatim>\<open>build\<close>, \<^verbatim>\<open>dev\<close>, \<^verbatim>\<open>develop\<close>):
  none of them is defined on a built-in prototype, so only an object's own property
  answers; a string, number, boolean or array gives \<^verbatim>\<open>undefined\<close>.
\<close>

fun get_prop :: "json option \<Rightarrow> string \<Rightarrow> error + json option" where
  "get_prop None k = Inl TypeError"
| "get_prop (Some JNull) k = Inl TypeError"
| "get_prop (Some (JObj kvs)) k = Inr (map_of kvs k)"
| "get_prop (Some v) k = Inr None"

fun opt_prop :: "json option \<Rightarrow> string \<Rightarrow> json option" where
  "opt_prop None k = None"
| "opt_prop (Some JNull) k = None"
| "opt_prop (Some (JObj kvs)) k = map_of kvs k"
| "opt_prop (Some v) k = None"

text \<open>Decimal text of an array index.\<close>

fun index_key :: "nat \<Rightarrow> string" where
  "index_key n =
     (if n < 10 then [char_of (48 + n)]
      else index_key (n div 10) @ [char_of (48 + n mod 10)])"

text \<open>
  The own enumerable properties that a spread \<^verbatim>\<open>{ ...v }\<close> copies: those of an object,
  the indexed elements of an array, the indexed characters of a string, nothing else.
\<close>

fun own_props :: "json option \<Rightarrow> (string \<times> json) list" where
  "own_props (Some (JObj kvs)) = kvs"
| "own_props (Some (JArr xs)) = zip (map index_key [0..<length xs]) xs"
| "own_props (Some (JStr s)) = zip (map index_key [0..<length s]) (map (\<lambda>c. JStr [c]) s)"
| "own_props v = []"

text \<open>
  \<^verbatim>\<open>{ ...a, ...b }\<close>, read only through \<^verbatim>\<open>deps.react\<close>, \<^verbatim>\<open>deps.express\<close>, ...: a map in
  which the properties of \<open>b\<close> override those of \<open>a\<close>.
\<close>

definition spread2 :: "json option \<Rightarrow> json option \<Rightarrow> (string \<rightharpoonup> json)" where
  "spread2 a b = map_of (own_props a) ++ map_of (own_props b)"

text \<open>The call \<^verbatim>\<open>Object.values(v)\<close>; it throws on \<^verbatim>\<open>null\<close>.\<close>

fun Object_values :: "json \<Rightarrow> error + json list" where
  "Object_values JNull = Inl TypeError"
| "Object_values (JObj kvs) = Inr (map snd kvs)"
| "Object_values (JArr xs) = Inr xs"
| "Object_values (JStr s) = Inr (map (\<lambda>c. JStr [c]) s)"
| "Object_values v = Inr []"

text \<open>
  \<^verbatim>\<open>Array.prototype.join\<close>: the texts of the elements with the separator between them;
  the first element whose conversion throws aborts the join.
\<close>

fun join_with :: "string \<Rightarrow> (error + string) list \<Rightarrow> error + string" where
  "join_with sep [] = Inr []"
| "join_with sep [r] = r"
| "join_with sep (r # rs) =
     (case r of
        Inl e \<Rightarrow> Inl e
      | Inr s \<Rightarrow> (case join_with sep rs of Inl e \<Rightarrow> Inl e | Inr t \<Rightarrow> Inr (s @ sep @ t)))"

text \<open>
  \<^verbatim>\<open>String(v)\<close>. An array prints as its elements joined by commas, \<^verbatim>\<open>null\<close> elements as
  the empty text. A plain object prints as \<^verbatim>\<open>[object Object]\<close> through
  \<^verbatim>\<open>Object.prototype.toString\<close>, unless an own property \<^verbatim>\<open>toString\<close> (never a function
  after \<^verbatim>\<open>JSON.parse\<close>) hides that method: then the conversion throws.
\<close>

fun to_string :: "json \<Rightarrow> error + string" where
  "to_string JNull = Inr ''null''"
| "to_string (JBool b) = Inr (if b then ''true'' else ''false'')"
| "to_string (JNum s) = Inr s"
| "to_string (JStr s) = Inr s"
| "to_string (JArr xs) =
     join_with '','' (map (\<lambda>x. if x = JNull then Inr [] else to_string x) xs)"
| "to_string (JObj kvs) =
     (if ''toString'' \<in> fst ` set kvs then Inl TypeError else Inr ''[object Object]'')"

text \<open>The call \<^verbatim>\<open>xs.join(sep)\<close>.\<close>

definition array_join :: "string \<Rightarrow> json list \<Rightarrow> error + string" where
  "array_join sep xs = join_with sep (map (\<lambda>x. if x = JNull then Inr [] else to_string x) xs)"

text \<open>
  The call \<^verbatim>\<open>s.split(c)\<close> for a one-character separator: the pieces between the
  separators. There is always at least one piece, so the last case never applies.
\<close>

fun split_on :: "char \<Rightarrow> string \<Rightarrow> string list" where
  "split_on sep [] = [[]]"
| "split_on sep (c # cs) =
     (if c = sep then [] # split_on sep cs
      else (case split_on sep cs of p # ps \<Rightarrow> (c # p) # ps | [] \<Rightarrow> [[c]]))"

text \<open>
  \<^verbatim>\<open>v.split(' ')[0]\<close> inside a template literal: only a string has the method
  \<^verbatim>\<open>split\<close>; element 0 of an empty array would be \<^verbatim>\<open>undefined\<close> and print as such.
\<close>

definition split_first :: "json option \<Rightarrow> error + string" where
  "split_first v =
     (case v of
        Some (JStr s) \<Rightarrow>
          Inr (case split_on CHR '' '' s of [] \<Rightarrow> ''undefined'' | p # ps \<Rightarrow> p)
      | _ \<Rightarrow> Inl TypeError)"

text \<open>The class \<^verbatim>\<open>\d\<close>.\<close>

definition is_digit :: "char \<Rightarrow> bool" where
  "is_digit c = (c \<in> set ''0123456789'')"

text \<open>
  \<^verbatim>\<open>s.match(/PORT=(\d+)/)\<close>: the regular expression is tried at each position from the
  left; at a position it needs the five characters \<^verbatim>\<open>PORT=\<close> and then takes the longest
  non-empty run of digits. The result is capture group 1 of the first match.
\<close>

fun match_PORT :: "string \<Rightarrow> string option" where
  "match_PORT [] = None"
| "match_PORT (c # cs) =
     (if take 5 (c # cs) = ''PORT='' \<and> takeWhile is_digit (drop 5 (c # cs)) \<noteq> []
      then Some (takeWhile is_digit (drop 5 (c # cs)))
      else match_PORT cs)"

text \<open>
  The base name of the directory is a JavaScript string of any content: the list of
  its UTF-16 code units. \<open>code_units\<close> gives the units of a text of code points below
  U+0100.
\<close>

type_synonym code_unit = nat

definition code_units :: "string \<Rightarrow> code_unit list" where
  "code_units s = map of_char s"

text \<open>
  \<^verbatim>\<open>s.toLowerCase()\<close>. On a string of ASCII code units the conversion is settled by the
  language: the letters A-Z (65 to 90) move up by 32 and nothing else changes. On any
  other string it is the case conversion of the Unicode tables (under which the Kelvin
  sign U+212A becomes \<^verbatim>\<open>k\<close>, and U+0130 becomes \<^verbatim>\<open>i\<close> followed by U+0307): those tables
  are not part of the program, and the conversion is the parameter \<open>unicode_lower\<close>.
\<close>

definition ascii_lower :: "code_unit \<Rightarrow> code_unit" where
  "ascii_lower u = (if 65 \<le> u \<and> u \<le> 90 then u + 32 else u)"

definition toLowerCase ::
  "(code_unit list \<Rightarrow> code_unit list) \<Rightarrow> code_unit list \<Rightarrow> code_unit list" where
  "toLowerCase unicode_lower s =
     (if list_all (\<lambda>u. u < 128) s then map ascii_lower s else unicode_lower s)"

text \<open>The character class \<^verbatim>\<open>[a-z0-9]\<close>: the code units 97 to 122 and 48 to 57.\<close>

definition in_a_z_0_9 :: "code_unit \<Rightarrow> bool" where
  "in_a_z_0_9 u = ((97 \<le> u \<and> u \<le> 122) \<or> (48 \<le> u \<and> u \<le> 57))"

text \<open>
  The call \<^verbatim>\<open>s.replace(/[^a-z0-9]/g, '-')\<close>: every code unit outside the class, left to
  right, becomes a hyphen. The result holds ASCII characters only and is given as text.
\<close>

fun replace_non_alnum :: "code_unit list \<Rightarrow> string" where
  "replace_non_alnum [] = []"
| "replace_non_alnum (u # us) =
     (if in_a_z_0_9 u then char_of u # replace_non_alnum us
      else CHR ''-'' # replace_non_alnum us)"

section \<open>The directory\<close>

text \<open>
  A directory is the list of its immediate entries, in the order \<^verbatim>\<open>readdirSync\<close>
  returns them, with distinct names that the file system compares exactly. An entry
  says what its path leads to once links are followed:
  \<^item> a file that can be read, given by the one thing the program observes of its
    content, what \<^verbatim>\<open>JSON.parse\<close> makes of its text: \<open>Unparseable\<close> when it throws,
    \<open>Parsed v\<close> when it returns \<open>v\<close>;
  \<^item> a directory;
  \<^item> a file that may not be read;
  \<^item> nothing: a link whose target is missing.
\<close>

datatype entry = Unparseable | Parsed json | Directory | Unreadable | Dangling

type_synonym directory = "(string \<times> entry) list"

text \<open>
  \<^verbatim>\<open>fs.existsSync(path.join(absolutePath, name))\<close> follows links: a listed link whose
  target is missing does not exist.
\<close>

definition existsSync :: "directory \<Rightarrow> string \<Rightarrow> bool" where
  "existsSync d name =
     (case map_of d name of
        None \<Rightarrow> False
      | Some Dangling \<Rightarrow> False
      | Some Unparseable \<Rightarrow> True
      | Some (Parsed j) \<Rightarrow> True
      | Some Directory \<Rightarrow> True
      | Some Unreadable \<Rightarrow> True)"

text \<open>\<^verbatim>\<open>fs.readdirSync(absolutePath)\<close> lists every entry, links included.\<close>

definition readdirSync :: "directory \<Rightarrow> string list" where
  "readdirSync d = map fst d"

text \<open>The call \<^verbatim>\<open>JSON.parse(fs.readFileSync(path.join(absolutePath, name), 'utf8'))\<close>.\<close>

definition JSON_parse_readFileSync :: "directory \<Rightarrow> string \<Rightarrow> error + json" where
  "JSON_parse_readFileSync d name =
     (case map_of d name of
        None \<Rightarrow> Inl ENOENT
      | Some Dangling \<Rightarrow> Inl ENOENT
      | Some Directory \<Rightarrow> Inl EISDIR
      | Some Unreadable \<Rightarrow> Inl EACCES
      | Some Unparseable \<Rightarrow> Inl SyntaxError
      | Some (Parsed j) \<Rightarrow> Inr j)"

definition endsWith :: "string \<Rightarrow> string \<Rightarrow> bool" where
  "endsWith s suf = suffix suf s"

section \<open>detectAppType\<close>

datatype app_kind = React | Node | Python | Generic

record appType =
  type :: app_kind
  packageJson :: "json option"

definition detectAppType :: "directory \<Rightarrow> error + appType" where
  "detectAppType d =
     (if existsSync d ''package.json'' then
        (case JSON_parse_readFileSync d ''package.json'' of
           Inl e \<Rightarrow> Inl e
         | Inr pj \<Rightarrow>
            (case get_prop (Some pj) ''dependencies'' of
               Inl e \<Rightarrow> Inl e
             | Inr dependencies \<Rightarrow>
                (case get_prop (Some pj) ''devDependencies'' of
                   Inl e \<Rightarrow> Inl e
                 | Inr devDependencies \<Rightarrow>
                    (let deps = spread2 dependencies devDependencies
                     in if truthy (deps ''react'')
                        then Inr \<lparr>type = React, packageJson = Some pj\<rparr>
                        else if truthy (deps ''express'') \<or> truthy (deps ''koa'')
                                \<or> truthy (deps ''hapi'') \<or> truthy (deps ''fastify'')
                        then Inr \<lparr>type = Node, packageJson = Some pj\<rparr>
                        else Inr \<lparr>type = Node, packageJson = Some pj\<rparr>))))
      else
        (let hasPythonFiles = list_ex (\<lambda>file. endsWith file ''.py'') (readdirSync d);
             hasRequirements = existsSync d ''requirements.txt''
         in if hasPythonFiles \<or> hasRequirements
            then Inr \<lparr>type = Python, packageJson = None\<rparr>
            else Inr \<lparr>type = Generic, packageJson = None\<rparr>))"

section \<open>The three documents\<close>

text \<open>
  A template literal of the source is the list of its lines; every line, the last one
  too, ends with a newline.
\<close>

definition unlines :: "string list \<Rightarrow> string" where
  "unlines ls = concat (map (\<lambda>l. l @ [CHR 0x0A]) ls)"

text \<open>
  \<^verbatim>\<open>generateReactDockerfile\<close>. Both reads of \<^verbatim>\<open>appType.packageJson.scripts\<close> give the same
  value; \<^verbatim>\<open>startScript\<close> is computed and not used.
\<close>

definition generateReactDockerfile :: "appType \<Rightarrow> error + string" where
  \<open>generateReactDockerfile appType =
     (case get_prop (packageJson appType) ''scripts'' of
        Inl e \<Rightarrow> Inl e
      | Inr scripts \<Rightarrow>
         (let startScript = js_or (opt_prop scripts ''start'') (Some (JStr ''react-scripts start''));
              buildScript = js_or (opt_prop scripts ''build'') (Some (JStr ''react-scripts build''))
          in case split_first buildScript of
               Inl e \<Rightarrow> Inl e
             | Inr buildToken \<Rightarrow> Inr (unlines
                [''# Multi-stage build for React application'',
                 ''FROM node:16-alpine AS build'',
                 '''',
                 ''# Set working directory'',
                 ''WORKDIR /app'',
                 '''',
                 ''# Copy package.json and package-lock.json'',
                 ''COPY package*.json ./'',
                 '''',
                 ''# Install dependencies'',
                 ''RUN npm ci'',
                 '''',
                 ''# Copy the rest of the code'',
                 ''COPY . .'',
                 '''',
                 ''# Build the application'',
                 ''RUN npm run '' @ buildToken,
                 '''',
                 ''# Production stage'',
                 ''FROM nginx:alpine AS production'',
                 '''',
                 ''# Copy build files from previous stage'',
                 ''COPY --from=build /app/build /usr/share/nginx/html'',
                 '''',
                 ''# Copy nginx configuration if it exists'',
                 ''COPY nginx.conf /etc/nginx/conf.d/default.conf 2>/dev/null || :'',
                 '''',
                 ''# Expose port'',
                 ''EXPOSE 80'',
                 '''',
                 ''# Start Nginx'',
                 ''CMD ["nginx", "-g", "daemon off;"]''])))\<close>

text \<open>
  The port of \<^verbatim>\<open>generateNodeDockerfile\<close>: \<^verbatim>\<open>3000\<close>, unless \<^verbatim>\<open>scripts\<close> is truthy and
  \<^verbatim>\<open>Object.values(scripts).join(' ')\<close> matches \<^verbatim>\<open>/PORT=(\d+)/\<close>.
\<close>

definition node_port :: "json option \<Rightarrow> error + string" where
  "node_port scripts =
     (case scripts of
        None \<Rightarrow> Inr ''3000''
      | Some v \<Rightarrow>
         if truthy (Some v) then
           (case Object_values v of
              Inl e \<Rightarrow> Inl e
            | Inr vals \<Rightarrow>
               (case array_join '' '' vals of
                  Inl e \<Rightarrow> Inl e
                | Inr scriptValues \<Rightarrow>
                   (case match_PORT scriptValues of
                      Some digits \<Rightarrow> Inr digits
                    | None \<Rightarrow> Inr ''3000'')))
         else Inr ''3000'')"

text \<open>
  The template literal that \<^verbatim>\<open>generateNodeDockerfile\<close> returns, with its two
  substitutions \<^verbatim>\<open>${port}\<close> and \<^verbatim>\<open>${startScript.split(' ')[0]}\<close>.
\<close>

definition node_template :: "string \<Rightarrow> string \<Rightarrow> string" where
  \<open>node_template port startToken = unlines
     [''# Dockerfile for Node.js application'',
      ''FROM node:16-alpine'',
      '''',
      ''# Create app directory'',
      ''WORKDIR /app'',
      '''',
      ''# Copy package.json and package-lock.json'',
      ''COPY package*.json ./'',
      '''',
      ''# Install dependencies'',
      ''RUN npm ci'',
      '''',
      ''# Copy the rest of the code'',
      ''COPY . .'',
      '''',
      ''# Expose the port the app will run on'',
      ''EXPOSE '' @ port,
      '''',
      ''# Start the application'',
      ''CMD ["npm", "run", "'' @ startToken @ ''"]'']\<close>

text \<open>
  \<^verbatim>\<open>generateNodeDockerfile\<close>. \<^verbatim>\<open>devScript\<close> and \<^verbatim>\<open>mainFile\<close> are computed and not used;
  once \<^verbatim>\<open>appType.packageJson.scripts\<close> has been read they cannot throw. The port is
  settled before the template literal is evaluated, where \<^verbatim>\<open>split\<close> is called.
\<close>

definition generateNodeDockerfile :: "appType \<Rightarrow> error + string" where
  "generateNodeDockerfile appType =
     (case get_prop (packageJson appType) ''scripts'' of
        Inl e \<Rightarrow> Inl e
      | Inr scripts \<Rightarrow>
         (let startScript = js_or (opt_prop scripts ''start'') (Some (JStr ''node server.js''))
          in case node_port scripts of
               Inl e \<Rightarrow> Inl e
             | Inr port \<Rightarrow>
                (case split_first startScript of
                   Inl e \<Rightarrow> Inl e
                 | Inr startToken \<Rightarrow> Inr (node_template port startToken))))"

definition generatePythonDockerfile :: string where
  \<open>generatePythonDockerfile = unlines
     [''# Dockerfile for Python application'',
      ''FROM python:3.9-slim'',
      '''',
      ''# Set working directory'',
      ''WORKDIR /app'',
      '''',
      ''# Copy requirements'',
      ''COPY requirements.txt .'',
      '''',
      ''# Install dependencies'',
      ''RUN pip install --no-cache-dir -r requirements.txt'',
      '''',
      ''# Copy the rest of the code'',
      ''COPY . .'',
      '''',
      ''# Expose port'',
      ''EXPOSE 8000'',
      '''',
      ''# Start the application'',
      ''CMD ["python", "app.py"]'']\<close>

definition generateGenericDockerfile :: string where
  \<open>generateGenericDockerfile = unlines
     [''# Generic Dockerfile'',
      ''FROM ubuntu:20.04'',
      '''',
      ''# Set working directory'',
      ''WORKDIR /app'',
      '''',
      ''# Copy application files'',
      ''COPY . .'',
      '''',
      ''# Install dependencies'',
      ''# RUN apt-get update && apt-get install -y some-package'',
      '''',
      ''# Expose port'',
      ''# EXPOSE 8080'',
      '''',
      ''# Start the application'',
      ''# CMD ["./start.sh"]'']\<close>

definition generateDockerfile :: "appType \<Rightarrow> error + string" where
  "generateDockerfile appType =
     (case type appType of
        React \<Rightarrow> generateReactDockerfile appType
      | Node \<Rightarrow> generateNodeDockerfile appType
      | Python \<Rightarrow> Inr generatePythonDockerfile
      | Generic \<Rightarrow> Inr generateGenericDockerfile)"

definition generateDockerignore :: "appType \<Rightarrow> string" where
  \<open>generateDockerignore appType =
     unlines
       [''# .dockerignore'',
        ''.git'',
        ''.gitignore'',
        ''.github'',
        ''.vscode'',
        ''.idea'',
        ''*.md'',
        ''!README.md'']
     @ (case type appType of
          React \<Rightarrow> unlines
            [''node_modules'', ''npm-debug.log'', ''Dockerfile'', ''.dockerignore'',
             ''build'', ''dist'', ''coverage'']
        | Node \<Rightarrow> unlines
            [''node_modules'', ''npm-debug.log'', ''Dockerfile'', ''.dockerignore'',
             ''build'', ''dist'', ''coverage'']
        | Python \<Rightarrow> unlines
            [''__pycache__/'', ''*.py[cod]'', ''*$py.class'', ''*.so'', ''.Python'', ''env/'',
             ''build/'', ''develop-eggs/'', ''dist/'', ''downloads/'', ''eggs/'', ''.eggs/'',
             ''lib/'', ''lib64/'', ''parts/'', ''sdist/'', ''var/'', ''*.egg-info/'',
             ''.installed.cfg'', ''*.egg'', ''venv/'', ''ENV/'']
        | Generic \<Rightarrow> [])\<close>

text \<open>
  \<^verbatim>\<open>generateDockerCompose\<close>; \<open>baseName\<close> is \<^verbatim>\<open>path.basename(absolutePath)\<close>, and
  \<open>unicode_lower\<close> the case conversion of the Unicode tables that \<^verbatim>\<open>toLowerCase\<close> applies to a
  name with a code unit outside ASCII.
\<close>

definition appName :: "(code_unit list \<Rightarrow> code_unit list) \<Rightarrow> code_unit list \<Rightarrow> string" where
  "appName unicode_lower baseName = replace_non_alnum (toLowerCase unicode_lower baseName)"

definition compose_port :: "appType \<Rightarrow> string" where
  "compose_port appType =
     (if type appType = React then ''80''
      else if type appType = Python then ''8000''
      else ''3000'')"

definition generateDockerCompose ::
  "(code_unit list \<Rightarrow> code_unit list) \<Rightarrow> appType \<Rightarrow> code_unit list \<Rightarrow> string" where
  \<open>generateDockerCompose unicode_lower appType baseName =
     (let port = compose_port appType
      in unlines
        [''version: '3'' @ [CHR 0x27],
         ''services:'',
         ''  '' @ appName unicode_lower baseName @ '':'',
         ''    build: .'',
         ''    ports:'',
         ''      - "'' @ port @ '':'' @ port @ ''"'',
         ''    volumes:'',
         ''      - .:/app'',
         ''    # environment:'',
         ''    #   - NODE_ENV=development''])\<close>

section \<open>The main program\<close>

text \<open>
  After the argument checks the script detects the type, then renders and writes the
  Dockerfile, the ignore file and the compose file, in this order; an exception ends
  the run.
\<close>

record documents =
  Dockerfile :: string
  dockerignore :: string
  docker_compose :: string

definition main ::
  "(code_unit list \<Rightarrow> code_unit list) \<Rightarrow> directory \<Rightarrow> code_unit list \<Rightarrow> error + documents" where
  "main unicode_lower d baseName =
     (case detectAppType d of
        Inl e \<Rightarrow> Inl e
      | Inr appType \<Rightarrow>
         (case generateDockerfile appType of
            Inl e \<Rightarrow> Inl e
          | Inr dockerfileContent \<Rightarrow>
             Inr \<lparr>Dockerfile = dockerfileContent,
                  dockerignore = generateDockerignore appType,
                  docker_compose = generateDockerCompose unicode_lower appType baseName\<rparr>))"

section \<open>Reading the documents\<close>

text \<open>
  What the properties below say of a rendered document is said of its lines: the
  text between newlines, without a last empty piece after the final newline.
\<close>

definition lines_of :: "string \<Rightarrow> string list" where
  "lines_of doc =
     (let ps = split_on (CHR 0x0A) doc in if last ps = [] then butlast ps else ps)"

text \<open>The ports a build file exposes: the arguments of its \<^verbatim>\<open>EXPOSE\<close> lines.\<close>

definition exposed_ports :: "string \<Rightarrow> string list" where
  "exposed_ports doc = map (drop 7) (filter (\<lambda>l. take 7 l = ''EXPOSE '') (lines_of doc))"

text \<open>
  The live lines of a document: not blank, and not a comment (a line whose first
  character after the indentation is \<^verbatim>\<open>#\<close>).
\<close>

definition is_live :: "string \<Rightarrow> bool" where
  "is_live l =
     (case dropWhile (\<lambda>c. c = CHR '' '') l of [] \<Rightarrow> False | c # cs \<Rightarrow> c \<noteq> CHR ''#'')"

definition live_lines :: "string \<Rightarrow> string list" where
  "live_lines doc = filter is_live (lines_of doc)"

text \<open>Command strings with one space between neighbours.\<close>

fun join_spaces :: "string list \<Rightarrow> string" where
  "join_spaces [] = []"
| "join_spaces [s] = s"
| "join_spaces (s # ss) = s @ '' '' @ join_spaces ss"

text \<open>
  The first whitespace-delimited token of a command line, in the words of the
  specification: leading whitespace is skipped, the token ends before the next
  whitespace character (space, tab, line feed, vertical tab, form feed, carriage
  return).
\<close>

definition is_whitespace :: "char \<Rightarrow> bool" where
  "is_whitespace c = (c \<in> {CHR '' '', CHR 0x09, CHR 0x0A, CHR 0x0B, CHR 0x0C, CHR 0x0D})"

definition first_whitespace_token :: "string \<Rightarrow> string" where
  "first_whitespace_token s = takeWhile (\<lambda>c. \<not> is_whitespace c) (dropWhile is_whitespace s)"

text \<open>
  The replacement in the words of the specification, on one character of the
  lower-cased name: a character of \<^verbatim>\<open>[a-z0-9]\<close>, that is one of the thirty-six characters
  below, stays; every other character becomes a hyphen.
\<close>

definition service_char :: "code_unit \<Rightarrow> char" where
  "service_char u =
     (if u \<in> set (code_units ''abcdefghijklmnopqrstuvwxyz0123456789'') then char_of u
      else CHR ''-'')"

section \<open>Splitting and lines\<close>

lemma split_on_not_Nil: "split_on sep s \<noteq> []"
  by (induction s) (auto split: list.splits)

lemma split_on_Cons_other:
  "c \<noteq> sep \<Longrightarrow> split_on sep (c # cs) = (c # hd (split_on sep cs)) # tl (split_on sep cs)"
  using split_on_not_Nil [of sep cs] by (cases "split_on sep cs") simp_all

lemma split_on_append:
  "sep \<notin> set a \<Longrightarrow> split_on sep (a @ b) = (a @ hd (split_on sep b)) # tl (split_on sep b)"
proof (induction a)
  case Nil
  then show ?case using split_on_not_Nil [of sep b] by simp
next
  case (Cons c a)
  then have "c \<noteq> sep" by auto
  with Cons show ?case by (simp add: split_on_Cons_other del: split_on.simps)
qed

lemma split_on_append_sep:
  "sep \<notin> set a \<Longrightarrow> split_on sep (a @ sep # b) = a # split_on sep b"
  by (simp add: split_on_append)

text \<open>Element 0 of \<^verbatim>\<open>s.split(c)\<close> is the text before the first separator.\<close>

lemma hd_split_on: "hd (split_on sep s) = takeWhile (\<lambda>c. c \<noteq> sep) s"
proof (induction s)
  case Nil
  show ?case by simp
next
  case (Cons c cs)
  show ?case
  proof (cases "c = sep")
    case True
    then show ?thesis by simp
  next
    case False
    with Cons show ?thesis by (simp add: split_on_Cons_other del: split_on.simps)
  qed
qed

lemma split_on_pieces: "p \<in> set (split_on sep s) \<Longrightarrow> set p \<subseteq> set s"
proof (induction s arbitrary: p)
  case Nil
  then show ?case by simp
next
  case (Cons c cs)
  show ?case
  proof (cases "c = sep")
    case True
    with Cons show ?thesis by auto
  next
    case False
    obtain q qs where q: "split_on sep cs = q # qs"
      using split_on_not_Nil [of sep cs] by (cases "split_on sep cs") auto
    with False Cons.prems have "p = c # q \<or> p \<in> set qs" by simp
    then show ?thesis
    proof
      assume "p = c # q"
      moreover have "set q \<subseteq> set cs" using Cons.IH [of q] q by simp
      ultimately show ?thesis by auto
    next
      assume "p \<in> set qs"
      then have "set p \<subseteq> set cs" using Cons.IH [of p] q by simp
      then show ?thesis by auto
    qed
  qed
qed

lemma split_on_unlines:
  "\<forall>l \<in> set ls. CHR 0x0A \<notin> set l \<Longrightarrow>
   split_on (CHR 0x0A) (unlines ls @ rest) = ls @ split_on (CHR 0x0A) rest"
proof (induction ls)
  case Nil
  show ?case by (simp add: unlines_def)
next
  case (Cons l ls)
  have "unlines (l # ls) @ rest = l @ CHR 0x0A # (unlines ls @ rest)"
    by (simp add: unlines_def)
  with Cons show ?case by (simp add: split_on_append_sep)
qed

text \<open>Lines that hold no newline are read back as they were written.\<close>

lemma lines_of_unlines:
  "\<forall>l \<in> set ls. CHR 0x0A \<notin> set l \<Longrightarrow> lines_of (unlines ls) = ls"
  using split_on_unlines [of ls "[]"] by (simp add: lines_of_def)

section \<open>The fixed documents\<close>

lemma exposed_ports_python: "exposed_ports generatePythonDockerfile = [''8000'']"
  by (simp add: exposed_ports_def generatePythonDockerfile_def lines_of_unlines)

lemma live_lines_generic:
  "live_lines generateGenericDockerfile = [''FROM ubuntu:20.04'', ''WORKDIR /app'', ''COPY . .'']"
  by (simp add: live_lines_def is_live_def generateGenericDockerfile_def lines_of_unlines)

lemma lines_of_python_ignore:
  "type r = Python \<Longrightarrow> ''venv/'' \<in> set (lines_of (generateDockerignore r))"
  by (simp add: generateDockerignore_def unlines_def lines_of_def)

section \<open>The service name\<close>

text \<open>
  One step of the replacement is the choice between the code unit and a hyphen that
  \<open>service_char\<close> describes.
\<close>

lemma service_char_eq: "(if in_a_z_0_9 u then char_of u else CHR ''-'') = service_char u"
proof -
  have "in_a_z_0_9 u \<longleftrightarrow> u \<in> set (code_units ''abcdefghijklmnopqrstuvwxyz0123456789'')"
    unfolding in_a_z_0_9_def code_units_def by (simp, arith)
  then show ?thesis by (simp add: service_char_def)
qed

lemma replace_non_alnum_map: "replace_non_alnum us = map service_char us"
proof (induction us)
  case Nil
  show ?case by simp
next
  case (Cons u us)
  have "replace_non_alnum (u # us) =
        (if in_a_z_0_9 u then char_of u else CHR ''-'') # replace_non_alnum us"
    by simp
  then show ?case by (simp only: service_char_eq Cons.IH list.map)
qed

lemma service_char_no_newline: "service_char u \<noteq> CHR 0x0A"
proof
  assume n: "service_char u = CHR 0x0A"
  show False
  proof (cases "in_a_z_0_9 u")
    case True
    then have "char_of u = CHR 0x0A" using n service_char_eq [of u] by simp
    then have "(of_char (char_of u) :: nat) = of_char (CHR 0x0A)" by simp
    then have "u mod 256 = 10" by simp
    with True show False by (auto simp: in_a_z_0_9_def)
  next
    case False
    then show False using n service_char_eq [of u] by simp
  qed
qed

lemma appName_no_newline: "CHR 0x0A \<notin> set (appName unicode_lower b)"
proof
  assume "CHR 0x0A \<in> set (appName unicode_lower b)"
  then obtain u where "service_char u = CHR 0x0A"
    by (auto simp: appName_def replace_non_alnum_map)
  then show False using service_char_no_newline by blast
qed

lemmas name_eval = appName_def toLowerCase_def code_units_def ascii_lower_def in_a_z_0_9_def
  char_of_def bit_0

section \<open>Detection\<close>

lemma existsSync_iff:
  "existsSync d name \<longleftrightarrow> (\<exists>e. map_of d name = Some e \<and> e \<noteq> Dangling)"
  by (auto simp: existsSync_def split: option.splits entry.splits)

text \<open>A name that is not listed does not exist.\<close>

lemma not_listed_not_exists: "name \<notin> fst ` set d \<Longrightarrow> \<not> existsSync d name"
  by (simp add: existsSync_def map_of_eq_None_iff [symmetric])

lemma get_prop_non_null: "pj \<noteq> JNull \<Longrightarrow> get_prop (Some pj) k = Inr (opt_prop (Some pj) k)"
  by (cases pj) simp_all

text \<open>
  When \<^verbatim>\<open>package.json\<close> does not exist, the listing and the existence of
  \<^verbatim>\<open>requirements.txt\<close> decide between Python and Generic.
\<close>

lemma detect_no_manifest:
  assumes "\<not> existsSync d ''package.json''"
  shows "detectAppType d =
         Inr \<lparr>type = (if (\<exists>f \<in> set (readdirSync d). suffix ''.py'' f)
                           \<or> existsSync d ''requirements.txt''
                         then Python else Generic),
              packageJson = None\<rparr>"
  using assms by (auto simp: detectAppType_def endsWith_def list_ex_iff Let_def)

text \<open>
  With a manifest that parsed to anything but \<^verbatim>\<open>null\<close>, the truthiness of \<^verbatim>\<open>deps.react\<close>
  alone decides between React and Node.
\<close>

lemma detect_manifest:
  assumes "map_of d ''package.json'' = Some (Parsed pj)" and "pj \<noteq> JNull"
  shows "detectAppType d =
         Inr \<lparr>type = (if truthy (spread2 (opt_prop (Some pj) ''dependencies'')
                                        (opt_prop (Some pj) ''devDependencies'') ''react'')
                        then React else Node),
              packageJson = Some pj\<rparr>"
  using assms
  by (simp add: detectAppType_def existsSync_def JSON_parse_readFileSync_def
      get_prop_non_null Let_def)

text \<open>The merged lookup: the entry of \<^verbatim>\<open>devDependencies\<close> if it has the key, else that of \<^verbatim>\<open>dependencies\<close>.\<close>

lemma spread2_lookup:
  "spread2 a b k =
     (case map_of (own_props b) k of Some v \<Rightarrow> Some v | None \<Rightarrow> map_of (own_props a) k)"
  by (simp add: spread2_def map_add_def)

lemma detect_react_if_truthy:
  assumes "map_of d ''package.json'' = Some (Parsed pj)"
      and "spread2 (opt_prop (Some pj) ''dependencies'') (opt_prop (Some pj) ''devDependencies'')
             ''react'' = Some v"
      and "truthy (Some v)"
  shows "detectAppType d = Inr \<lparr>type = React, packageJson = Some pj\<rparr>"
proof -
  have "pj \<noteq> JNull" using assms(2) by (auto simp: spread2_def)
  then show ?thesis using assms detect_manifest [of d pj] by simp
qed

text \<open>
  Every way in which detection ends with an exception: \<^verbatim>\<open>package.json\<close> exists and is a
  file whose text does not parse, a file whose text is \<^verbatim>\<open>null\<close>, a directory, or a file
  that may not be read.
\<close>

lemma detect_failures:
  "detectAppType d = Inl e \<longleftrightarrow>
     map_of d ''package.json'' = Some Unparseable \<and> e = SyntaxError
     \<or> map_of d ''package.json'' = Some (Parsed JNull) \<and> e = TypeError
     \<or> map_of d ''package.json'' = Some Directory \<and> e = EISDIR
     \<or> map_of d ''package.json'' = Some Unreadable \<and> e = EACCES"
proof (cases "map_of d ''package.json''")
  case None
  then have "\<not> existsSync d ''package.json''" by (simp add: existsSync_def)
  then show ?thesis using None detect_no_manifest [of d] by simp
next
  case (Some out)
  show ?thesis
  proof (cases out)
    case (Parsed pj)
    show ?thesis
    proof (cases "pj = JNull")
      case True
      with Some Parsed show ?thesis
        by (auto simp: detectAppType_def existsSync_def JSON_parse_readFileSync_def)
    next
      case False
      with Some Parsed show ?thesis using detect_manifest [of d pj] by simp
    qed
  next
    case Dangling
    with Some have "\<not> existsSync d ''package.json''" by (simp add: existsSync_def)
    then show ?thesis using Some Dangling detect_no_manifest [of d] by simp
  qed (use Some in \<open>auto simp: detectAppType_def existsSync_def JSON_parse_readFileSync_def\<close>)
qed

text \<open>
  The \<^verbatim>\<open>SyntaxError\<close> of \<^verbatim>\<open>JSON.parse\<close> is thrown exactly when \<^verbatim>\<open>package.json\<close> is a
  readable file whose text is not well-formed; the run then ends with that error and
  renders nothing.
\<close>

lemma syntax_error_iff_malformed:
  "detectAppType d = Inl SyntaxError \<longleftrightarrow> map_of d ''package.json'' = Some Unparseable"
  by (simp add: detect_failures)

lemma malformed_no_documents:
  "map_of d ''package.json'' = Some Unparseable \<Longrightarrow> main unicode_lower d baseName = Inl SyntaxError"
  using syntax_error_iff_malformed [of d] by (simp add: main_def)

text \<open>
  C1. A manifest that parses and has the key \<^verbatim>\<open>react\<close> in \<^verbatim>\<open>dependencies\<close> or
  \<^verbatim>\<open>devDependencies\<close> is to be classified React whatever the value under the key.
  \<^verbatim>\<open>detectAppType\<close> tests \<^verbatim>\<open>if (deps.react)\<close>, the truthiness of the merged value, so the
  manifest \<^verbatim>\<open>{"dependencies": {"react": ""}}\<close>, whose version range is the empty string
  (any version, for npm), is classified Node.
\<close>

theorem react_with_empty_version_is_node:
  "detectAppType [(''package.json'', Parsed (JObj [(''dependencies'', JObj [(''react'', JStr '''')])]))]
   = Inr \<lparr>type = Node,
          packageJson = Some (JObj [(''dependencies'', JObj [(''react'', JStr '''')])])\<rparr>"
  by (simp add: detectAppType_def existsSync_def JSON_parse_readFileSync_def spread2_def)

text \<open>
  C2. Detection is to fail with the parse error exactly when \<^verbatim>\<open>package.json\<close> is present
  with content that is not well-formed, and to return a detection result in every
  other case. A \<^verbatim>\<open>package.json\<close> whose content is the well-formed text \<^verbatim>\<open>null\<close> parses, and
  the unguarded read \<^verbatim>\<open>packageJson.dependencies\<close> then throws a \<^verbatim>\<open>TypeError\<close>: the
  directory below, with \<^verbatim>\<open>index.js\<close> and that manifest, gets neither the parse error nor
  a detection result.
\<close>

theorem null_manifest_throws_type_error:
  "map_of [(''index.js'', Unparseable), (''package.json'', Parsed JNull)] ''package.json''
     = Some (Parsed JNull)
   \<and> detectAppType [(''index.js'', Unparseable), (''package.json'', Parsed JNull)] = Inl TypeError"
  by (simp add: detectAppType_def existsSync_def JSON_parse_readFileSync_def)

text \<open>
  C5. A manifest that parses to a key-value document (an object) with no \<^verbatim>\<open>react\<close> key in
  the merged lookup of \<^verbatim>\<open>dependencies\<close> and \<^verbatim>\<open>devDependencies\<close> is classified Node, whether
  or not one of \<^verbatim>\<open>express\<close>, \<^verbatim>\<open>koa\<close>, \<^verbatim>\<open>hapi\<close>, \<^verbatim>\<open>fastify\<close> is among the keys.
\<close>

theorem node_detected_without_react:
  assumes "map_of d ''package.json'' = Some (Parsed (JObj m))"
      and "spread2 (map_of m ''dependencies'') (map_of m ''devDependencies'') ''react'' = None"
  shows "detectAppType d = Inr \<lparr>type = Node, packageJson = Some (JObj m)\<rparr>"
  using assms detect_manifest [of d "JObj m"] by simp

theorem node_detected_without_react_witness:
  "detectAppType
     [(''package.json'', Parsed (JObj [(''dependencies'', JObj [(''koa'', JStr ''^2.14.1'')])]))]
   = Inr \<lparr>type = Node,
          packageJson = Some (JObj [(''dependencies'', JObj [(''koa'', JStr ''^2.14.1'')])])\<rparr>
   \<and> detectAppType [(''package.json'', Parsed (JObj [(''name'', JStr ''tool'')]))]
   = Inr \<lparr>type = Node, packageJson = Some (JObj [(''name'', JStr ''tool'')])\<rparr>"
  using node_detected_without_react
     [of "[(''package.json'', Parsed (JObj [(''dependencies'', JObj [(''koa'', JStr ''^2.14.1'')])]))]"
         "[(''dependencies'', JObj [(''koa'', JStr ''^2.14.1'')])]"]
        node_detected_without_react
     [of "[(''package.json'', Parsed (JObj [(''name'', JStr ''tool'')]))]"
         "[(''name'', JStr ''tool'')]"]
  by (simp add: spread2_def)

text \<open>
  C6, as the code has it. Existence is what \<^verbatim>\<open>fs.existsSync\<close> reports, which follows
  links. When \<^verbatim>\<open>package.json\<close> does not exist, a directory that lists an entry ending in
  \<^verbatim>\<open>.py\<close> or in which \<^verbatim>\<open>requirements.txt\<close> exists is classified Python; the run then
  renders a build file whose only exposed port is 8000 and an ignore file with the
  virtual-environment pattern \<^verbatim>\<open>venv/\<close>. When there is no such entry and
  \<^verbatim>\<open>requirements.txt\<close> does not exist either, the directory is classified Generic.
\<close>

theorem python_detection_and_rendering:
  assumes "\<not> existsSync d ''package.json''"
  shows "((\<exists>f \<in> set (readdirSync d). suffix ''.py'' f) \<or> existsSync d ''requirements.txt'' \<longrightarrow>
            detectAppType d = Inr \<lparr>type = Python, packageJson = None\<rparr>
            \<and> (\<exists>docs. main unicode_lower d baseName = Inr docs
                  \<and> exposed_ports (Dockerfile docs) = [''8000'']
                  \<and> ''venv/'' \<in> set (lines_of (dockerignore docs))))
       \<and> (\<not> (\<exists>f \<in> set (readdirSync d). suffix ''.py'' f) \<and> \<not> existsSync d ''requirements.txt'' \<longrightarrow>
            detectAppType d = Inr \<lparr>type = Generic, packageJson = None\<rparr>)"
proof (intro conjI impI)
  assume sig: "(\<exists>f \<in> set (readdirSync d). suffix ''.py'' f) \<or> existsSync d ''requirements.txt''"
  let ?r = "\<lparr>type = Python, packageJson = None\<rparr>"
  show det: "detectAppType d = Inr ?r"
    using assms sig detect_no_manifest [of d] by simp
  have "main unicode_lower d baseName =
        Inr \<lparr>Dockerfile = generatePythonDockerfile,
             dockerignore = generateDockerignore ?r,
             docker_compose = generateDockerCompose unicode_lower ?r baseName\<rparr>"
    by (simp add: main_def det generateDockerfile_def)
  then show "\<exists>docs. main unicode_lower d baseName = Inr docs
                  \<and> exposed_ports (Dockerfile docs) = [''8000'']
                  \<and> ''venv/'' \<in> set (lines_of (dockerignore docs))"
    using exposed_ports_python lines_of_python_ignore [of ?r] by simp
next
  assume "\<not> (\<exists>f \<in> set (readdirSync d). suffix ''.py'' f) \<and> \<not> existsSync d ''requirements.txt''"
  then show "detectAppType d = Inr \<lparr>type = Generic, packageJson = None\<rparr>"
    using assms detect_no_manifest [of d] by simp
qed

theorem python_detection_and_rendering_witness:
  "(detectAppType [(''requirements.txt'', Unparseable), (''README.md'', Unparseable)]
      = Inr \<lparr>type = Python, packageJson = None\<rparr>
    \<and> (\<exists>docs. main id [(''requirements.txt'', Unparseable), (''README.md'', Unparseable)]
                 (code_units ''api'')
                 = Inr docs
          \<and> exposed_ports (Dockerfile docs) = [''8000'']
          \<and> ''venv/'' \<in> set (lines_of (dockerignore docs))))
   \<and> detectAppType [(''app.py'', Dangling)] = Inr \<lparr>type = Python, packageJson = None\<rparr>
   \<and> detectAppType [(''notes.txt'', Unparseable)] = Inr \<lparr>type = Generic, packageJson = None\<rparr>"
  using python_detection_and_rendering
          [of "[(''requirements.txt'', Unparseable), (''README.md'', Unparseable)]" id
              "code_units ''api''"]
        python_detection_and_rendering [of "[(''app.py'', Dangling)]" id "code_units ''api''"]
        python_detection_and_rendering [of "[(''notes.txt'', Unparseable)]" id "code_units ''api''"]
  by (simp add: existsSync_def readdirSync_def suffix_to_prefix)

text \<open>
  C6 as stated makes a \<^verbatim>\<open>requirements.txt\<close> in the root a Python signal. A directory whose
  only entry is a link named \<^verbatim>\<open>requirements.txt\<close> with a missing target lists that name
  and has no \<^verbatim>\<open>package.json\<close>; \<^verbatim>\<open>fs.existsSync\<close> follows the link and answers false, and
  the directory is classified Generic.
\<close>

theorem dangling_requirements_is_generic_counterexample:
  "readdirSync [(''requirements.txt'', Dangling)] = [''requirements.txt'']
   \<and> map_of [(''requirements.txt'', Dangling)] ''package.json'' = None
   \<and> detectAppType [(''requirements.txt'', Dangling)] = Inr \<lparr>type = Generic, packageJson = None\<rparr>"
  by (simp add: detectAppType_def existsSync_def readdirSync_def endsWith_def suffix_to_prefix)

section \<open>The compose file\<close>

lemma lines_of_compose:
  \<open>lines_of (generateDockerCompose unicode_lower r b) =
     [''version: '3'' @ [CHR 0x27],
      ''services:'',
      ''  '' @ appName unicode_lower b @ '':'',
      ''    build: .'',
      ''    ports:'',
      ''      - "'' @ compose_port r @ '':'' @ compose_port r @ ''"'',
      ''    volumes:'',
      ''      - .:/app'',
      ''    # environment:'',
      ''    #   - NODE_ENV=development'']\<close>
  unfolding generateDockerCompose_def Let_def
  by (rule lines_of_unlines) (cases "type r"; simp add: appName_no_newline compose_port_def)

text \<open>
  C4, as the code has it. For every detection result and base directory name the compose
  file is the single-service document below: keyed by the service name, with
  \<^verbatim>\<open>build: .\<close>, one quoted mapping of a port to itself, the bind mount \<^verbatim>\<open>.:/app\<close> and a
  commented-out environment hint. The port is fixed by the category alone: 80 for
  React, 8000 for Python, 3000 for Node and for Generic.
\<close>

theorem compose_file_structure:
  \<open>lines_of (generateDockerCompose unicode_lower r baseName) =
     [''version: '3'' @ [CHR 0x27],
      ''services:'',
      ''  '' @ appName unicode_lower baseName @ '':'',
      ''    build: .'',
      ''    ports:'',
      (case type r of
         React \<Rightarrow> ''      - "80:80"''
       | Python \<Rightarrow> ''      - "8000:8000"''
       | Node \<Rightarrow> ''      - "3000:3000"''
       | Generic \<Rightarrow> ''      - "3000:3000"''),
      ''    volumes:'',
      ''      - .:/app'',
      ''    # environment:'',
      ''    #   - NODE_ENV=development'']\<close>
  by (cases "type r") (simp_all add: lines_of_compose compose_port_def)

theorem compose_file_structure_witness:
  \<open>lines_of (generateDockerCompose id \<lparr>type = Python, packageJson = None\<rparr> (code_units ''svc'')) =
     [''version: '3'' @ [CHR 0x27],
      ''services:'',
      ''  svc:'',
      ''    build: .'',
      ''    ports:'',
      ''      - "8000:8000"'',
      ''    volumes:'',
      ''      - .:/app'',
      ''    # environment:'',
      ''    #   - NODE_ENV=development'']\<close>
  using compose_file_structure [of id "\<lparr>type = Python, packageJson = None\<rparr>" "code_units ''svc''"]
  by (simp add: name_eval)



text \<open>
  C10. In the Generic case (no \<^verbatim>\<open>package.json\<close>, no entry ending in \<^verbatim>\<open>.py\<close>, no
  \<^verbatim>\<open>requirements.txt\<close>) the compose file has the live line \<^verbatim>\<open>- "3000:3000"\<close>, while the
  only live lines of the build file are \<^verbatim>\<open>FROM\<close>, \<^verbatim>\<open>WORKDIR\<close> and \<^verbatim>\<open>COPY\<close>: its install,
  \<^verbatim>\<open>EXPOSE\<close> and \<^verbatim>\<open>CMD\<close> lines are comments.
\<close>

theorem generic_compose_live_port:
  assumes "''package.json'' \<notin> fst ` set d"
      and "\<not> (\<exists>f \<in> fst ` set d. suffix ''.py'' f)"
      and "''requirements.txt'' \<notin> fst ` set d"
  shows \<open>\<exists>docs. main unicode_lower d baseName = Inr docs
           \<and> ''      - "3000:3000"'' \<in> set (live_lines (docker_compose docs))
           \<and> live_lines (Dockerfile docs) = [''FROM ubuntu:20.04'', ''WORKDIR /app'', ''COPY . .'']
           \<and> {''# RUN apt-get update && apt-get install -y some-package'', ''# EXPOSE 8080'',
               ''# CMD ["./start.sh"]''} \<subseteq> set (lines_of (Dockerfile docs))\<close>
proof -
  let ?r = "\<lparr>type = Generic, packageJson = None\<rparr>"
  have "\<not> existsSync d ''package.json''" "\<not> existsSync d ''requirements.txt''"
    using assms(1,3) by (simp_all add: not_listed_not_exists)
  moreover have "\<not> (\<exists>f \<in> set (readdirSync d). suffix ''.py'' f)"
    using assms(2) by (simp add: readdirSync_def)
  ultimately have det: "detectAppType d = Inr ?r"
    using detect_no_manifest [of d] by simp
  have m: "main unicode_lower d baseName =
           Inr \<lparr>Dockerfile = generateGenericDockerfile,
                dockerignore = generateDockerignore ?r,
                docker_compose = generateDockerCompose unicode_lower ?r baseName\<rparr>"
    by (simp add: main_def det generateDockerfile_def)
  have c: \<open>''      - "3000:3000"'' \<in> set (live_lines (generateDockerCompose unicode_lower ?r baseName))\<close>
    by (simp add: live_lines_def lines_of_compose compose_port_def is_live_def)
  have g: \<open>{''# RUN apt-get update && apt-get install -y some-package'', ''# EXPOSE 8080'',
            ''# CMD ["./start.sh"]''} \<subseteq> set (lines_of generateGenericDockerfile)\<close>
    by (simp add: generateGenericDockerfile_def lines_of_unlines)
  show ?thesis using m c g live_lines_generic by simp
qed

theorem generic_compose_live_port_witness:
  \<open>\<exists>docs. main id [(''notes.txt'', Unparseable)] (code_units ''Scratch Pad'') = Inr docs
           \<and> ''      - "3000:3000"'' \<in> set (live_lines (docker_compose docs))
           \<and> live_lines (Dockerfile docs) = [''FROM ubuntu:20.04'', ''WORKDIR /app'', ''COPY . .'']
           \<and> {''# RUN apt-get update && apt-get install -y some-package'', ''# EXPOSE 8080'',
               ''# CMD ["./start.sh"]''} \<subseteq> set (lines_of (Dockerfile docs))\<close>
  using generic_compose_live_port [of "[(''notes.txt'', Unparseable)]" id "code_units ''Scratch Pad''"]
  by (simp add: suffix_to_prefix)

section \<open>The Node build file\<close>

lemma array_join_strings: "array_join '' '' (map JStr cmds) = Inr (join_spaces cmds)"
  unfolding array_join_def
  by (induction cmds rule: join_spaces.induct) simp_all

lemma is_digit_not_newline: "is_digit c \<Longrightarrow> c \<noteq> CHR 0x0A"
  by (auto simp: is_digit_def)

lemma match_PORT_digits: "match_PORT s = Some ds \<Longrightarrow> ds \<noteq> [] \<and> (\<forall>c \<in> set ds. is_digit c)"
  by (induction s) (auto split: if_splits dest: set_takeWhileD)

text \<open>
  What \<open>match_PORT\<close> returns is the first match of \<^verbatim>\<open>PORT=<digits>\<close>: there is none exactly
  when no position of the text holds \<^verbatim>\<open>PORT=\<close> followed by a digit; otherwise the result
  is the whole run of digits after the leftmost such position.
\<close>

lemma match_here_iff:
  "take 5 s = ''PORT='' \<and> takeWhile is_digit (drop 5 s) \<noteq> []
   \<longleftrightarrow> (\<exists>c rest. s = ''PORT='' @ c # rest \<and> is_digit c)"
proof
  assume h: "take 5 s = ''PORT='' \<and> takeWhile is_digit (drop 5 s) \<noteq> []"
  then obtain c rest where d: "drop 5 s = c # rest" and c: "is_digit c"
    by (cases "drop 5 s") (auto split: if_splits)
  have "s = take 5 s @ drop 5 s" by simp
  with h d have "s = ''PORT='' @ c # rest" by metis
  with c show "\<exists>c rest. s = ''PORT='' @ c # rest \<and> is_digit c" by blast
next
  assume "\<exists>c rest. s = ''PORT='' @ c # rest \<and> is_digit c"
  then show "take 5 s = ''PORT='' \<and> takeWhile is_digit (drop 5 s) \<noteq> []" by auto
qed

lemma match_PORT_None_iff:
  "match_PORT s = None \<longleftrightarrow> (\<forall>pre c rest. s = pre @ ''PORT='' @ c # rest \<longrightarrow> \<not> is_digit c)"
proof (induction s)
  case Nil
  show ?case by simp
next
  case (Cons x xs)
  show ?case
  proof (cases "take 5 (x # xs) = ''PORT='' \<and> takeWhile is_digit (drop 5 (x # xs)) \<noteq> []")
    case True
    then obtain c rest where "x # xs = [] @ ''PORT='' @ c # rest" "is_digit c"
      using match_here_iff [of "x # xs"] by auto
    then have "\<not> (\<forall>pre c rest. x # xs = pre @ ''PORT='' @ c # rest \<longrightarrow> \<not> is_digit c)"
      by blast
    moreover have "match_PORT (x # xs) \<noteq> None" using True by simp
    ultimately show ?thesis by blast
  next
    case False
    then have m: "match_PORT (x # xs) = match_PORT xs" by auto
    have "(\<forall>pre c rest. x # xs = pre @ ''PORT='' @ c # rest \<longrightarrow> \<not> is_digit c)
          \<longleftrightarrow> (\<forall>pre c rest. xs = pre @ ''PORT='' @ c # rest \<longrightarrow> \<not> is_digit c)"
    proof
      assume a: "\<forall>pre c rest. x # xs = pre @ ''PORT='' @ c # rest \<longrightarrow> \<not> is_digit c"
      show "\<forall>pre c rest. xs = pre @ ''PORT='' @ c # rest \<longrightarrow> \<not> is_digit c"
      proof (intro allI impI)
        fix pre c rest
        assume "xs = pre @ ''PORT='' @ c # rest"
        then have "x # xs = (x # pre) @ ''PORT='' @ c # rest" by simp
        with a show "\<not> is_digit c" by blast
      qed
    next
      assume a: "\<forall>pre c rest. xs = pre @ ''PORT='' @ c # rest \<longrightarrow> \<not> is_digit c"
      show "\<forall>pre c rest. x # xs = pre @ ''PORT='' @ c # rest \<longrightarrow> \<not> is_digit c"
      proof (intro allI impI)
        fix pre c rest
        assume e: "x # xs = pre @ ''PORT='' @ c # rest"
        show "\<not> is_digit c"
        proof (cases pre)
          case Nil
          with e have "x # xs = ''PORT='' @ c # rest" by simp
          with False match_here_iff [of "x # xs"] show ?thesis by blast
        next
          case (Cons y ys)
          with e have "xs = ys @ ''PORT='' @ c # rest" by simp
          with a show ?thesis by blast
        qed
      qed
    qed
    with m Cons.IH show ?thesis by simp
  qed
qed

lemma match_PORT_Some:
  assumes "match_PORT s = Some ds"
  shows "\<exists>pre post. s = pre @ ''PORT='' @ ds @ post
           \<and> ds \<noteq> [] \<and> (\<forall>c \<in> set ds. is_digit c)
           \<and> (post = [] \<or> \<not> is_digit (hd post))
           \<and> (\<forall>pre' c rest. s = pre' @ ''PORT='' @ c # rest \<and> is_digit c
                 \<longrightarrow> length pre \<le> length pre')"
  using assms
proof (induction s)
  case Nil
  then show ?case by simp
next
  case (Cons x xs)
  show ?case
  proof (cases "take 5 (x # xs) = ''PORT='' \<and> takeWhile is_digit (drop 5 (x # xs)) \<noteq> []")
    case True
    then obtain c rest where e: "x # xs = ''PORT='' @ c # rest" and c: "is_digit c"
      using match_here_iff [of "x # xs"] by auto
    have "match_PORT (''PORT='' @ c # rest) = Some (c # takeWhile is_digit rest)"
      using c by simp
    with Cons.prems e have ds: "ds = c # takeWhile is_digit rest" by simp
    have "x # xs = [] @ ''PORT='' @ ds @ dropWhile is_digit rest"
      unfolding e ds by simp
    moreover have "dropWhile is_digit rest = [] \<or> \<not> is_digit (hd (dropWhile is_digit rest))"
      using hd_dropWhile [of is_digit rest] by blast
    moreover have "ds \<noteq> []" "\<forall>c \<in> set ds. is_digit c"
      using c ds by (auto dest: set_takeWhileD)
    ultimately show ?thesis
      by (metis list.size(3) le0)
  next
    case False
    then have "match_PORT xs = Some ds" using Cons.prems by (simp split: if_splits)
    from Cons.IH [OF this] obtain pre post where
      p: "xs = pre @ ''PORT='' @ ds @ post" "ds \<noteq> []" "\<forall>c \<in> set ds. is_digit c"
         "post = [] \<or> \<not> is_digit (hd post)"
         "\<forall>pre' c rest. xs = pre' @ ''PORT='' @ c # rest \<and> is_digit c
            \<longrightarrow> length pre \<le> length pre'"
      by blast
    have least: "length (x # pre) \<le> length pre'"
      if e: "x # xs = pre' @ ''PORT='' @ c # rest" and c: "is_digit c" for pre' c rest
    proof (cases pre')
      case Nil
      with e have "x # xs = ''PORT='' @ c # rest" by simp
      with c False match_here_iff [of "x # xs"] show ?thesis by blast
    next
      case (Cons y ys)
      with e have "xs = ys @ ''PORT='' @ c # rest" by simp
      with c p(5) have "length pre \<le> length ys" by blast
      with Cons show ?thesis by simp
    qed
    have "x # xs = (x # pre) @ ''PORT='' @ ds @ post" using p(1) by simp
    with p(2-4) least show ?thesis by blast
  qed
qed

text \<open>
  When \<^verbatim>\<open>scripts\<close> is missing, or an object whose values are all strings, the port is
  found in those strings joined by single spaces.
\<close>

lemma node_port_strings:
  assumes "scripts = None \<and> kvs = [] \<or> scripts = Some (JObj kvs)"
      and "map snd kvs = map JStr cmds"
  shows "node_port scripts =
         Inr (case match_PORT (join_spaces cmds) of Some ds \<Rightarrow> ds | None \<Rightarrow> ''3000'')"
  using assms
  by (auto simp: node_port_def array_join_strings split: option.splits)

lemma start_token:
  assumes "start = None \<or> (\<exists>s. start = Some (JStr s))"
  shows "split_first (js_or start (Some (JStr ''node server.js''))) =
         Inr (takeWhile (\<lambda>c. c \<noteq> CHR '' '')
               (case start of Some (JStr s) \<Rightarrow> if s = [] then ''node server.js'' else s
                | _ \<Rightarrow> ''node server.js''))"
proof -
  have piece: "(case split_on CHR '' '' t of [] \<Rightarrow> ''undefined'' | p # ps \<Rightarrow> p)
               = takeWhile (\<lambda>c. c \<noteq> CHR '' '') t" for t
    using hd_split_on [of "CHR '' ''" t] split_on_not_Nil [of "CHR '' ''" t]
    by (cases "split_on CHR '' '' t") simp_all
  show ?thesis using assms
    by (auto simp: js_or_def split_first_def piece simp del: split_on.simps)
qed

lemma tl_split_on: "sep \<in> set s \<Longrightarrow> tl (split_on sep s) \<noteq> []"
proof (induction s)
  case Nil
  then show ?case by simp
next
  case (Cons c cs)
  show ?case
  proof (cases "c = sep")
    case True
    then show ?thesis by (simp add: split_on_not_Nil)
  next
    case False
    with Cons show ?thesis by (simp add: split_on_Cons_other del: split_on.simps)
  qed
qed

lemma last_split_on_append:
  "sep \<in> set t \<Longrightarrow> last (split_on sep (s @ t)) = last (split_on sep t)"
proof (induction s)
  case Nil
  show ?case by simp
next
  case (Cons c cs)
  show ?case
  proof (cases "c = sep")
    case True
    with Cons show ?thesis by (simp add: split_on_not_Nil)
  next
    case False
    have "tl (split_on sep (cs @ t)) \<noteq> []" using Cons.prems by (simp add: tl_split_on)
    with False Cons show ?thesis
      by (simp add: split_on_Cons_other last_tl del: split_on.simps)
  qed
qed

lemma filter_butlast:
  "\<not> P (last xs) \<Longrightarrow> filter P (butlast xs) = filter P xs"
  by (induction xs) (auto split: if_splits)

text \<open>
  The template has one \<^verbatim>\<open>EXPOSE\<close> line whatever the start token is: the token holds no
  space, so no line that it adds or breaks can begin with \<^verbatim>\<open>EXPOSE\<close> and a space.
\<close>

lemma exposed_ports_node_template:
  assumes "CHR 0x0A \<notin> set port" and "CHR '' '' \<notin> set tok"
  shows "exposed_ports (node_template port tok) = [port]"
proof -
  let ?nl = "CHR 0x0A"
  let ?head = "[''# Dockerfile for Node.js application'', ''FROM node:16-alpine'', '''',
     ''# Create app directory'', ''WORKDIR /app'', '''',
     ''# Copy package.json and package-lock.json'', ''COPY package*.json ./'', '''',
     ''# Install dependencies'', ''RUN npm ci'', '''',
     ''# Copy the rest of the code'', ''COPY . .'', '''',
     ''# Expose the port the app will run on'', ''EXPOSE '' @ port, '''',
     ''# Start the application'']"
  let ?cmd = \<open>''CMD ["npm", "run", "''\<close>
  let ?tail = \<open>tok @ ''"]'' @ [?nl]\<close>
  let ?P = "\<lambda>l::string. take 7 l = ''EXPOSE ''"
  define first_piece where "first_piece = hd (split_on ?nl ?tail)"
  define more where "more = tl (split_on ?nl ?tail)"
  define L where "L = ?head @ (?cmd @ first_piece) # more"
  have doc: "node_template port tok = unlines ?head @ (?cmd @ ?tail)"
    by (simp add: node_template_def unlines_def)
  have head: "\<forall>l \<in> set ?head. ?nl \<notin> set l" using assms(1) by simp
  have cmd: "split_on ?nl (?cmd @ ?tail) = (?cmd @ first_piece) # more"
    unfolding first_piece_def more_def by (rule split_on_append) simp
  have sp: "split_on ?nl (node_template port tok) = L"
    unfolding doc L_def by (simp only: split_on_unlines [OF head] cmd)
  have "last (split_on ?nl (node_template port tok)) = []"
    using last_split_on_append [of ?nl "[?nl]" "unlines ?head @ ?cmd @ tok @ ''\"]''"]
    unfolding doc by simp
  then have lines: "lines_of (node_template port tok) = butlast L"
    by (simp add: lines_of_def sp)
  have rest: "\<not> ?P p" if "p \<in> set more" for p
  proof
    assume e: "take 7 p = ''EXPOSE ''"
    have "p \<in> set (split_on ?nl ?tail)"
      using that unfolding more_def by (meson list.set_sel(2) split_on_not_Nil)
    then have "set p \<subseteq> set ?tail" by (rule split_on_pieces)
    moreover have "CHR '' '' \<in> set (take 7 p)" unfolding e by simp
    then have "CHR '' '' \<in> set p" by (rule in_set_takeD)
    ultimately show False using assms(2) by auto
  qed
  then have more: "filter ?P more = []" by (simp add: filter_empty_conv)
  have filt: "filter ?P L = [''EXPOSE '' @ port]"
    unfolding L_def by (simp add: more)
  have lastp: "\<not> ?P (last L)"
  proof (cases "more = []")
    case True
    then show ?thesis unfolding L_def by simp
  next
    case False
    then have "last L \<in> set more" unfolding L_def by simp
    then show ?thesis by (rule rest)
  qed
  have "filter ?P (butlast L) = filter ?P L"
    using lastp by (rule filter_butlast)
  then show ?thesis
    unfolding exposed_ports_def lines by (simp add: filt)
qed

text \<open>The template ends with the line that launches the start token through \<^verbatim>\<open>npm run\<close>.\<close>

lemma node_template_ends:
  \<open>suffix (CHR 0x0A # ''CMD ["npm", "run", "'' @ tok @ ''"]'' @ [CHR 0x0A]) (node_template port tok)\<close>
proof -
  have "node_template port tok =
        (unlines [''# Dockerfile for Node.js application'', ''FROM node:16-alpine'', '''',
     ''# Create app directory'', ''WORKDIR /app'', '''',
     ''# Copy package.json and package-lock.json'', ''COPY package*.json ./'', '''',
     ''# Install dependencies'', ''RUN npm ci'', '''',
     ''# Copy the rest of the code'', ''COPY . .'', '''',
     ''# Expose the port the app will run on'', ''EXPOSE '' @ port, ''''] @ ''# Start the application'')
        @ (CHR 0x0A # ''CMD [\"npm\", \"run\", \"'' @ tok @ ''\"]'' @ [CHR 0x0A])"
    by (simp add: node_template_def unlines_def)
  then show ?thesis by (metis suffixI)
qed

lemma start_of_string_scripts:
  assumes "scripts = None \<and> kvs = [] \<or> scripts = Some (JObj kvs)"
      and "map snd kvs = map JStr cmds"
  shows "opt_prop scripts ''start'' = map_of kvs ''start''"
    and "map_of kvs ''start'' = None \<or> (\<exists>s. map_of kvs ''start'' = Some (JStr s))"
proof -
  show "opt_prop scripts ''start'' = map_of kvs ''start''" using assms(1) by auto
  show "map_of kvs ''start'' = None \<or> (\<exists>s. map_of kvs ''start'' = Some (JStr s))"
  proof (cases "map_of kvs ''start''")
    case None
    then show ?thesis by simp
  next
    case (Some v)
    then have "v \<in> set (map snd kvs)" by (force dest: map_of_SomeD)
    then show ?thesis using Some assms(2) by auto
  qed
qed

text \<open>
  The build file of a Node result whose \<^verbatim>\<open>scripts\<close> are missing or all strings: rendering
  succeeds, with the port and the start token below.
\<close>

lemma node_dockerfile_of_string_scripts:
  assumes "type r = Node" and "packageJson r = Some pj" and "pj \<noteq> JNull"
      and "opt_prop (Some pj) ''scripts'' = None \<and> kvs = []
           \<or> opt_prop (Some pj) ''scripts'' = Some (JObj kvs)"
      and "map snd kvs = map JStr cmds"
  shows "generateDockerfile r =
         Inr (node_template
               (case match_PORT (join_spaces cmds) of Some ds \<Rightarrow> ds | None \<Rightarrow> ''3000'')
               (takeWhile (\<lambda>c. c \<noteq> CHR '' '')
                 (case map_of kvs ''start'' of
                    Some (JStr s) \<Rightarrow> if s = [] then ''node server.js'' else s
                  | _ \<Rightarrow> ''node server.js'')))"
proof -
  let ?scripts = "opt_prop (Some pj) ''scripts''"
  have g: "get_prop (packageJson r) ''scripts'' = Inr ?scripts"
    using assms(2,3) by (simp add: get_prop_non_null)
  have p: "node_port ?scripts =
           Inr (case match_PORT (join_spaces cmds) of Some ds \<Rightarrow> ds | None \<Rightarrow> ''3000'')"
    using assms(4,5) by (rule node_port_strings)
  have s: "opt_prop ?scripts ''start'' = map_of kvs ''start''"
    using assms(4,5) by (rule start_of_string_scripts(1))
  have t: "split_first (js_or (map_of kvs ''start'') (Some (JStr ''node server.js''))) =
           Inr (takeWhile (\<lambda>c. c \<noteq> CHR '' '')
                 (case map_of kvs ''start'' of
                    Some (JStr s) \<Rightarrow> if s = [] then ''node server.js'' else s
                  | _ \<Rightarrow> ''node server.js''))"
    using start_of_string_scripts(2) [OF assms(4,5)] by (rule start_token)
  show ?thesis
    by (simp add: generateDockerfile_def assms(1) generateNodeDockerfile_def g p s t Let_def)
qed

lemmas node_eval = generateDockerfile_def generateNodeDockerfile_def node_port_def
  array_join_def js_or_def split_first_def is_digit_def Let_def

text \<open>
  C3, as the code has it. For every Node detection result whose manifest has no scripts,
  or scripts that are all strings, the build file is rendered and exposes exactly one
  port: the digits of the first match of \<^verbatim>\<open>PORT=<digits>\<close> in the script command strings
  joined by single spaces in the order of the manifest, and 3000 when nothing matches.
  The scripts \<^verbatim>\<open>{"dev": "PORT=4000 node x.js", "start": "node y.js"}\<close> expose 4000.
\<close>

theorem node_exposed_port:
  assumes "type r = Node" and "packageJson r = Some pj" and "pj \<noteq> JNull"
      and "opt_prop (Some pj) ''scripts'' = None \<and> kvs = []
           \<or> opt_prop (Some pj) ''scripts'' = Some (JObj kvs)"
      and "map snd kvs = map JStr cmds"
  shows "\<exists>doc. generateDockerfile r = Inr doc
           \<and> exposed_ports doc =
               [case match_PORT (join_spaces cmds) of Some ds \<Rightarrow> ds | None \<Rightarrow> ''3000'']"
proof -
  let ?port = "case match_PORT (join_spaces cmds) of Some ds \<Rightarrow> ds | None \<Rightarrow> ''3000''"
  let ?tok = "takeWhile (\<lambda>c. c \<noteq> CHR '' '')
                 (case map_of kvs ''start'' of
                    Some (JStr s) \<Rightarrow> if s = [] then ''node server.js'' else s
                  | _ \<Rightarrow> ''node server.js'')"
  have doc: "generateDockerfile r = Inr (node_template ?port ?tok)"
    using assms by (rule node_dockerfile_of_string_scripts)
  have "CHR 0x0A \<notin> set ?port"
    using match_PORT_digits [of "join_spaces cmds"] is_digit_not_newline
    by (auto split: option.splits)
  moreover have "CHR '' '' \<notin> set ?tok"
    by (auto dest: set_takeWhileD)
  ultimately have "exposed_ports (node_template ?port ?tok) = [?port]"
    by (rule exposed_ports_node_template)
  with doc show ?thesis by simp
qed

theorem node_exposed_port_witness:
  "\<exists>doc. generateDockerfile
            \<lparr>type = Node,
             packageJson = Some (JObj [(''scripts'',
               JObj [(''dev'', JStr ''PORT=4000 node x.js''), (''start'', JStr ''node y.js'')])])\<rparr>
          = Inr doc
        \<and> exposed_ports doc = [''4000'']"
  using node_exposed_port
    [of "\<lparr>type = Node,
             packageJson = Some (JObj [(''scripts'',
               JObj [(''dev'', JStr ''PORT=4000 node x.js''), (''start'', JStr ''node y.js'')])])\<rparr>"
        "JObj [(''scripts'',
               JObj [(''dev'', JStr ''PORT=4000 node x.js''), (''start'', JStr ''node y.js'')])]"
        "[(''dev'', JStr ''PORT=4000 node x.js''), (''start'', JStr ''node y.js'')]"
        "[''PORT=4000 node x.js'', ''node y.js'']"]
  by (simp add: is_digit_def)

text \<open>
  C3 as stated scans the concatenation of the script command strings. The code scans
  \<^verbatim>\<open>Object.values(scripts).join(' ')\<close>: for the scripts
  \<^verbatim>\<open>{"start": "node server.js PORT=80", "zip": "7z a site.7z ."}\<close> the build file exposes
  80, while the first match in the concatenation is 807.
\<close>

theorem port_scan_joined_with_spaces_counterexample:
  "generateDockerfile
     \<lparr>type = Node,
      packageJson = Some (JObj [(''scripts'',
        JObj [(''start'', JStr ''node server.js PORT=80''), (''zip'', JStr ''7z a site.7z .'')])])\<rparr>
   = Inr (node_template ''80'' ''node'')
   \<and> exposed_ports (node_template ''80'' ''node'') = [''80'']
   \<and> match_PORT (''node server.js PORT=80'' @ ''7z a site.7z .'') = Some ''807''"
  by (simp add: node_eval exposed_ports_node_template)

text \<open>
  C7, as the code has it. For every Node detection result whose manifest has no scripts,
  or scripts that are all strings, the build file is rendered and ends with the line
  that launches one token through \<^verbatim>\<open>npm run\<close>: the text of \<^verbatim>\<open>scripts.start\<close> before its
  first space character when that script is a non-empty string, else the text
  \<^verbatim>\<open>node\<close> of the default \<^verbatim>\<open>node server.js\<close>. The scripts
  \<^verbatim>\<open>{"start": "nodemon --watch src index.js"}\<close> give the token \<^verbatim>\<open>nodemon\<close>.
\<close>

theorem node_start_token:
  assumes "type r = Node" and "packageJson r = Some pj" and "pj \<noteq> JNull"
      and "opt_prop (Some pj) ''scripts'' = None \<and> kvs = []
           \<or> opt_prop (Some pj) ''scripts'' = Some (JObj kvs)"
      and "map snd kvs = map JStr cmds"
      and "start = (case map_of kvs ''start'' of
                      Some (JStr s) \<Rightarrow> if s = [] then ''node server.js'' else s
                    | _ \<Rightarrow> ''node server.js'')"
  shows \<open>\<exists>doc. generateDockerfile r = Inr doc
           \<and> suffix (CHR 0x0A # ''CMD ["npm", "run", "'' @ takeWhile (\<lambda>c. c \<noteq> CHR '' '') start
                      @ ''"]'' @ [CHR 0x0A]) doc\<close>
  using node_dockerfile_of_string_scripts [OF assms(1-5)] node_template_ends
  unfolding assms(6) by simp

theorem node_start_token_witness:
  \<open>\<exists>doc. generateDockerfile
            \<lparr>type = Node,
             packageJson = Some (JObj [(''scripts'',
               JObj [(''start'', JStr ''nodemon --watch src index.js'')])])\<rparr>
          = Inr doc
        \<and> suffix (CHR 0x0A # ''CMD ["npm", "run", "nodemon"]'' @ [CHR 0x0A]) doc\<close>
  using node_start_token
    [of "\<lparr>type = Node,
             packageJson = Some (JObj [(''scripts'',
               JObj [(''start'', JStr ''nodemon --watch src index.js'')])])\<rparr>"
        "JObj [(''scripts'', JObj [(''start'', JStr ''nodemon --watch src index.js'')])]"
        "[(''start'', JStr ''nodemon --watch src index.js'')]"
        "[''nodemon --watch src index.js'']"
        "''nodemon --watch src index.js''"]
  by simp

text \<open>
  C7 as stated takes the first whitespace-delimited token. The code calls
  \<^verbatim>\<open>split(' ')\<close>, which splits at space characters only: for a start script whose
  words are separated by a tab, \<^verbatim>\<open>nodemon\<close>, tab, \<^verbatim>\<open>index.js\<close>, the whole script is the
  token, and the build file does not launch \<^verbatim>\<open>nodemon\<close>.
\<close>

theorem start_token_tab_counterexample:
  \<open>generateDockerfile
     \<lparr>type = Node,
      packageJson = Some (JObj [(''scripts'',
        JObj [(''start'', JStr (''nodemon'' @ [CHR 0x09] @ ''index.js''))])])\<rparr>
   = Inr (node_template ''3000'' (''nodemon'' @ [CHR 0x09] @ ''index.js''))
   \<and> first_whitespace_token (''nodemon'' @ [CHR 0x09] @ ''index.js'') = ''nodemon''
   \<and> \<not> suffix (CHR 0x0A # ''CMD ["npm", "run", "nodemon"]'' @ [CHR 0x0A])
         (node_template ''3000'' (''nodemon'' @ [CHR 0x09] @ ''index.js''))\<close>
  by (simp add: node_eval first_whitespace_token_def is_whitespace_def
      node_template_def unlines_def suffix_to_prefix)

text \<open>
  C4 as stated gives a Node result the port derived from the \<^verbatim>\<open>PORT=<digits>\<close> scan.
  For the scripts \<^verbatim>\<open>{"dev": "PORT=4000 node x.js", "start": "node y.js"}\<close> the build file
  exposes 4000, and the compose file maps 3000, not 4000.
\<close>

theorem compose_port_not_derived_counterexample:
  \<open>generateDockerfile
     \<lparr>type = Node,
      packageJson = Some (JObj [(''scripts'',
        JObj [(''dev'', JStr ''PORT=4000 node x.js''), (''start'', JStr ''node y.js'')])])\<rparr>
   = Inr (node_template ''4000'' ''node'')
   \<and> exposed_ports (node_template ''4000'' ''node'') = [''4000'']
   \<and> ''      - "3000:3000"'' \<in> set (lines_of (generateDockerCompose id
         \<lparr>type = Node,
          packageJson = Some (JObj [(''scripts'',
            JObj [(''dev'', JStr ''PORT=4000 node x.js''), (''start'', JStr ''node y.js'')])])\<rparr>
         (code_units ''shop'')))
   \<and> ''      - "4000:4000"'' \<notin> set (lines_of (generateDockerCompose id
         \<lparr>type = Node,
          packageJson = Some (JObj [(''scripts'',
            JObj [(''dev'', JStr ''PORT=4000 node x.js''), (''start'', JStr ''node y.js'')])])\<rparr>
         (code_units ''shop'')))\<close>
  by (simp add: node_eval exposed_ports_node_template lines_of_compose compose_port_def name_eval)

end
